theory Spec2Isabelle
  imports Main
begin

section \<open>The header \<open>snail.h\<close> of the Swift binding\<close>

text \<open>
  The repository slice is one C header,
  \<^verbatim>\<open>extras/tree-sitter-snail/bindings/swift/TreeSitterSnail/snail.h\<close>.
  It is embedded as the byte sequence of the file: sixteen rows of text separated by
  fifteen line feeds, the last row not terminated. Everything below is computed from
  these bytes by the translation phases of C that the header exercises: splitting into
  lines, decomposition into preprocessing tokens, conditional inclusion, and the
  grammar of external declarations.
\<close>

definition nl :: char where
  "nl = CHR 0x0A"

definition dquote :: char where
  "dquote = CHR 0x22"

definition snail_h :: string where
  \<open>snail_h =
     ''#ifndef TREE_SITTER_SNAIL_H_'' @ [nl] @
     ''#define TREE_SITTER_SNAIL_H_'' @ [nl] @
     [nl] @
     ''typedef struct TSLanguage TSLanguage;'' @ [nl] @
     [nl] @
     ''#ifdef __cplusplus'' @ [nl] @
     ''extern "C" {'' @ [nl] @
     ''#endif'' @ [nl] @
     [nl] @
     ''const TSLanguage *tree_sitter_snail(void);'' @ [nl] @
     [nl] @
     ''#ifdef __cplusplus'' @ [nl] @
     ''}'' @ [nl] @
     ''#endif'' @ [nl] @
     [nl] @
     ''#endif // TREE_SITTER_SNAIL_H_''\<close>

subsection \<open>Lines\<close>

text \<open>
  A file is cut at every line feed. A last row without a line feed is a line of its
  own; a line feed at the very end of a file does not open another line.
\<close>

fun lines_acc :: "string \<Rightarrow> string \<Rightarrow> string list" where
  "lines_acc acc [] = (if acc = [] then [] else [rev acc])"
| "lines_acc acc (c # cs) =
     (if c = nl then rev acc # lines_acc [] cs else lines_acc (c # acc) cs)"

definition split_lines :: "string \<Rightarrow> string list" where
  "split_lines text = lines_acc [] text"

definition line_count :: "string \<Rightarrow> nat" where
  "line_count text = length (split_lines text)"

definition newline_count :: "string \<Rightarrow> nat" where
  "newline_count text = length (filter (\<lambda>c. c = nl) text)"

subsection \<open>Preprocessing tokens\<close>

text \<open>
  Translation phase 3 on one line: white space separates tokens, a \<^verbatim>\<open>//\<close> comment runs
  to the end of the line and counts as white space, and the rest is decomposed into
  identifiers (keywords are identifiers at this stage), preprocessing numbers, string
  literals and single-character punctuators. These are the lexical forms of the header;
  block comments, character constants, escape sequences and line splicing do not occur
  in it and are not covered.
\<close>

datatype token = Ident string | Number string | StrLit string | Punct char

definition is_space :: "char \<Rightarrow> bool" where
  "is_space c = (c = CHR '' '' \<or> c = CHR 0x09 \<or> c = CHR 0x0B \<or> c = CHR 0x0C \<or> c = CHR 0x0D)"

definition is_digit :: "char \<Rightarrow> bool" where
  "is_digit c = (let n = (of_char c :: nat) in 48 \<le> n \<and> n \<le> 57)"

definition is_nondigit :: "char \<Rightarrow> bool" where
  "is_nondigit c =
     (let n = (of_char c :: nat)
      in (65 \<le> n \<and> n \<le> 90) \<or> (97 \<le> n \<and> n \<le> 122) \<or> c = CHR ''_'')"

datatype lex_mode = Between | InIdent string | InNumber string | InString string

fun starts_line_comment :: "char \<Rightarrow> string \<Rightarrow> bool" where
  "starts_line_comment c [] = False"
| "starts_line_comment c (d # ds) = (c = CHR ''/'' \<and> d = CHR ''/'')"

function lex :: "lex_mode \<Rightarrow> string \<Rightarrow> token list" where
  "lex Between [] = []"
| "lex (InIdent a) [] = [Ident (rev a)]"
| "lex (InNumber a) [] = [Number (rev a)]"
| "lex (InString a) [] = [StrLit (rev a)]"
| "lex Between (c # cs) =
     (if is_space c then lex Between cs
      else if is_nondigit c then lex (InIdent [c]) cs
      else if is_digit c then lex (InNumber [c]) cs
      else if c = dquote then lex (InString []) cs
      else if starts_line_comment c cs then []
      else Punct c # lex Between cs)"
| "lex (InIdent a) (c # cs) =
     (if is_nondigit c \<or> is_digit c then lex (InIdent (c # a)) cs
      else Ident (rev a) # lex Between (c # cs))"
| "lex (InNumber a) (c # cs) =
     (if is_nondigit c \<or> is_digit c \<or> c = CHR ''.'' then lex (InNumber (c # a)) cs
      else Number (rev a) # lex Between (c # cs))"
| "lex (InString a) (c # cs) =
     (if c = dquote then StrLit (rev a) # lex Between cs
      else lex (InString (c # a)) cs)"
  by pat_completeness auto
termination
  by (relation "measure (\<lambda>(m, cs). 2 * length cs + (if m = Between then 0 else 1))") auto

definition tokens_of_line :: "string \<Rightarrow> token list" where
  "tokens_of_line l = lex Between l"

subsection \<open>Conditional inclusion\<close>

text \<open>
  A line whose first token is \<^verbatim>\<open>#\<close> is a directive; every other line is text. The
  directives of the header are \<^verbatim>\<open>#ifndef\<close>, \<^verbatim>\<open>#ifdef\<close>, \<^verbatim>\<open>#define\<close> and \<^verbatim>\<open>#endif\<close>;
  any other directive is kept as \<open>PUnsupported\<close> and is an error where it would be
  executed.
\<close>

datatype pp_line =
    PIfndef string
  | PIfdef string
  | PDefine string "token list"
  | PEndif
  | PUnsupported "token list"
  | PText "token list"

fun directive :: "string \<Rightarrow> token list \<Rightarrow> pp_line" where
  "directive d [] = (if d = ''endif'' then PEndif else PUnsupported [Ident d])"
| "directive d (Ident n # rest) =
     (if d = ''define'' then PDefine n rest
      else if d = ''ifndef'' \<and> rest = [] then PIfndef n
      else if d = ''ifdef'' \<and> rest = [] then PIfdef n
      else PUnsupported (Ident d # Ident n # rest))"
| "directive d ts = PUnsupported (Ident d # ts)"

fun classify :: "token list \<Rightarrow> pp_line" where
  "classify (Punct h # Ident d # rest) =
     (if h = CHR ''#'' then directive d rest else PText (Punct h # Ident d # rest))"
| "classify (Punct h # rest) =
     (if h = CHR ''#'' then PUnsupported rest else PText (Punct h # rest))"
| "classify ts = PText ts"

definition pp_lines_of :: "string \<Rightarrow> pp_line list" where
  "pp_lines_of text = map (\<lambda>l. classify (tokens_of_line l)) (split_lines text)"

text \<open>
  The preprocessor state: the names defined as macros so far in the translation unit
  and the tokens passed on to the compiler. The state keeps the names of the macros
  and not their replacement lists, so the model performs no macro replacement. It does
  not guess either: a text line of an active group that names a defined macro would have
  to be rewritten (C11 6.10.3), and there the run stops with \<open>NeedsMacroReplacement\<close>;
  a \<^verbatim>\<open>#define\<close> of a name that is already defined is allowed only with the same
  replacement list, which the state cannot compare, and there the run stops with
  \<open>MacroRedefined\<close>. Where a run ends in a state, no token of a processed text line
  was a macro and the emitted tokens are those the preprocessor emits.
\<close>

record pp_state =
  defined :: "string set"
  emitted :: "token list"

datatype pp_error =
    EndifWithoutIf
  | UnterminatedConditional
  | UnsupportedDirective
  | NeedsMacroReplacement
  | MacroRedefined

fun names_macro :: "string set \<Rightarrow> token \<Rightarrow> bool" where
  "names_macro D (Ident n) = (n \<in> D)"
| "names_macro D t = False"

text \<open>
  The stack holds one entry for each open conditional group: whether the lines of the
  group are processed. A group nested in a skipped group is skipped.
\<close>

fun active :: "bool list \<Rightarrow> bool" where
  "active [] = True"
| "active (c # cs) = c"

fun pp_run :: "bool list \<Rightarrow> pp_line list \<Rightarrow> pp_state \<Rightarrow> pp_error + pp_state" where
  "pp_run conds [] s = (if conds = [] then Inr s else Inl UnterminatedConditional)"
| "pp_run conds (PIfndef n # ls) s =
     pp_run ((active conds \<and> n \<notin> defined s) # conds) ls s"
| "pp_run conds (PIfdef n # ls) s =
     pp_run ((active conds \<and> n \<in> defined s) # conds) ls s"
| "pp_run conds (PDefine n body # ls) s =
     (if active conds then
        (if n \<in> defined s then Inl MacroRedefined
         else pp_run conds ls (s\<lparr>defined := insert n (defined s)\<rparr>))
      else pp_run conds ls s)"
| "pp_run conds (PEndif # ls) s =
     (case conds of [] \<Rightarrow> Inl EndifWithoutIf | c # cs \<Rightarrow> pp_run cs ls s)"
| "pp_run conds (PUnsupported ts # ls) s =
     (if active conds then Inl UnsupportedDirective else pp_run conds ls s)"
| "pp_run conds (PText ts # ls) s =
     (if active conds then
        (if filter (names_macro (defined s)) ts = []
         then pp_run conds ls (s\<lparr>emitted := emitted s @ ts\<rparr>)
         else Inl NeedsMacroReplacement)
      else pp_run conds ls s)"

definition include_file :: "string \<Rightarrow> pp_state \<Rightarrow> pp_error + pp_state" where
  "include_file text s = pp_run [] (pp_lines_of text) s"

fun include_times :: "nat \<Rightarrow> string \<Rightarrow> pp_state \<Rightarrow> pp_error + pp_state" where
  "include_times 0 text s = Inr s"
| "include_times (Suc n) text s =
     (case include_file text s of Inl e \<Rightarrow> Inl e | Inr s' \<Rightarrow> include_times n text s')"

subsection \<open>External declarations\<close>

text \<open>
  The tokens that survive preprocessing are read as a sequence of external declarations.
  The grammar covers the forms a grammar-binding header is made of: a \<^verbatim>\<open>typedef\<close>, a
  structure declared or defined, a function declared or defined, and the braces of a
  linkage specification. Anything else (an object declaration, an initialiser, a
  parameter list without a prototype) is not accepted and makes the parse fail.
\<close>

datatype ctype = TVoid | TNamed string | TStruct string | TConst ctype | TPtr ctype

datatype decl =
    Typedef ctype string
  | StructForward string
  | StructDef string "token list"
  | FunProto string ctype "ctype list"
  | FunDef string ctype "ctype list" "token list"
  | LinkageOpen string
  | LinkageClose

definition statement_keywords :: "string list" where
  "statement_keywords =
     [''if'', ''else'', ''switch'', ''case'', ''default'', ''for'', ''while'', ''do'',
      ''goto'', ''break'', ''continue'', ''return'']"

definition reserved :: "string list" where
  "reserved = statement_keywords @
     [''typedef'', ''extern'', ''static'', ''auto'', ''register'', ''inline'', ''sizeof'',
      ''struct'', ''union'', ''enum'', ''const'', ''volatile'', ''restrict'', ''void'']"

fun parse_specifier :: "token list \<Rightarrow> (ctype \<times> token list) option" where
  "parse_specifier (Ident a # ts) =
     (if a = ''const'' then
        (case parse_specifier ts of None \<Rightarrow> None | Some (ty, r) \<Rightarrow> Some (TConst ty, r))
      else if a = ''struct'' then
        (case ts of
           Ident b # r \<Rightarrow> if b \<in> set reserved then None else Some (TStruct b, r)
         | _ \<Rightarrow> None)
      else if a = ''void'' then Some (TVoid, ts)
      else if a \<in> set reserved then None
      else Some (TNamed a, ts))"
| "parse_specifier ts = None"

fun parse_pointers :: "ctype \<Rightarrow> token list \<Rightarrow> ctype \<times> token list" where
  "parse_pointers ty (Punct c # ts) =
     (if c = CHR ''*'' then parse_pointers (TPtr ty) ts else (ty, Punct c # ts))"
| "parse_pointers ty (Ident q # ts) =
     (if q = ''const'' then parse_pointers (TConst ty) ts else (ty, Ident q # ts))"
| "parse_pointers ty ts = (ty, ts)"

definition parse_type :: "token list \<Rightarrow> (ctype \<times> token list) option" where
  "parse_type ts =
     (case parse_specifier ts of None \<Rightarrow> None | Some (ty, r) \<Rightarrow> Some (parse_pointers ty r))"

fun split_commas :: "token list \<Rightarrow> token list \<Rightarrow> token list list" where
  "split_commas acc [] = [rev acc]"
| "split_commas acc (t # ts) =
     (if t = Punct (CHR '','') then rev acc # split_commas [] ts else split_commas (t # acc) ts)"

fun parse_param :: "token list \<Rightarrow> ctype option" where
  "parse_param ts =
     (case parse_type ts of
        Some (ty, []) \<Rightarrow> Some ty
      | Some (ty, [Ident n]) \<Rightarrow> if n \<in> set reserved then None else Some ty
      | _ \<Rightarrow> None)"

fun all_some :: "'a option list \<Rightarrow> 'a list option" where
  "all_some [] = Some []"
| "all_some (None # xs) = None"
| "all_some (Some x # xs) = (case all_some xs of None \<Rightarrow> None | Some ys \<Rightarrow> Some (x # ys))"

text \<open>
  The tokens between the parentheses of a function declarator. \<^verbatim>\<open>(void)\<close> is the
  prototype of a function without parameters; an empty list \<^verbatim>\<open>()\<close> is no prototype
  and is not accepted.
\<close>

definition parse_params :: "token list \<Rightarrow> ctype list option" where
  "parse_params inner =
     (if inner = [] then None
      else if inner = [Ident ''void''] then Some []
      else all_some (map parse_param (split_commas [] inner)))"

fun take_block :: "nat \<Rightarrow> token list \<Rightarrow> (token list \<times> token list) option" where
  "take_block depth [] = None"
| "take_block depth (t # ts) =
     (if t = Punct (CHR ''}'') \<and> depth = 0 then Some ([], ts)
      else
        (case take_block
                (if t = Punct (CHR ''{'') then Suc depth
                 else if t = Punct (CHR ''}'') then depth - 1 else depth) ts of
           None \<Rightarrow> None
         | Some (body, r) \<Rightarrow> Some (t # body, r)))"

definition not_close_paren :: "token \<Rightarrow> bool" where
  "not_close_paren t = (t \<noteq> Punct (CHR '')''))"

definition parse_function :: "token list \<Rightarrow> (decl \<times> token list) option" where
  "parse_function ts =
     (case parse_type ts of
        Some (ty, Ident n # Punct c # r) \<Rightarrow>
          if c = CHR ''('' \<and> n \<notin> set reserved then
            (case parse_params (takeWhile not_close_paren r) of
               None \<Rightarrow> None
             | Some ps \<Rightarrow>
                 (case dropWhile not_close_paren r of
                    close # Punct e # r' \<Rightarrow>
                      if e = CHR '';'' then Some (FunProto n ty ps, r')
                      else if e = CHR ''{'' then
                        (case take_block 0 r' of
                           None \<Rightarrow> None
                         | Some (body, r'') \<Rightarrow> Some (FunDef n ty ps body, r''))
                      else None
                  | _ \<Rightarrow> None))
          else None
      | _ \<Rightarrow> None)"

definition parse_struct :: "token list \<Rightarrow> (decl \<times> token list) option" where
  "parse_struct ts =
     (case ts of
        Ident tag # Punct c # r \<Rightarrow>
          if tag \<in> set reserved then None
          else if c = CHR '';'' then Some (StructForward tag, r)
          else if c = CHR ''{'' then
            (case take_block 0 r of
               Some (body, Punct e # r') \<Rightarrow>
                 if e = CHR '';'' then Some (StructDef tag body, r') else None
             | _ \<Rightarrow> None)
          else None
      | _ \<Rightarrow> None)"

fun parse_decl :: "token list \<Rightarrow> (decl \<times> token list) option" where
  "parse_decl (Punct c # ts) = (if c = CHR ''}'' then Some (LinkageClose, ts) else None)"
| "parse_decl (Ident a # ts) =
     (if a = ''typedef'' then
        (case parse_type ts of
           Some (ty, Ident n # Punct c # r) \<Rightarrow>
             if c = CHR '';'' \<and> n \<notin> set reserved then Some (Typedef ty n, r) else None
         | _ \<Rightarrow> None)
      else if a = ''extern'' then
        (case ts of
           StrLit l # Punct c # r \<Rightarrow> if c = CHR ''{'' then Some (LinkageOpen l, r) else None
         | _ \<Rightarrow> None)
      else if a = ''struct'' \<and> parse_struct ts \<noteq> None then parse_struct ts
      else parse_function (Ident a # ts))"
| "parse_decl ts = None"

text \<open>
  Every successful parse of one declaration consumes at least one token, which is what
  lets the loop over the whole token sequence terminate.
\<close>

lemma parse_specifier_shorter:
  "parse_specifier ts = Some (ty, r) \<Longrightarrow> length r < length ts"
  by (induction ts arbitrary: ty r rule: parse_specifier.induct)
    (auto split: if_splits option.splits list.splits token.splits)

lemma parse_pointers_shorter:
  "parse_pointers ty ts = (ty', r) \<Longrightarrow> length r \<le> length ts"
  by (induction ty ts arbitrary: ty' r rule: parse_pointers.induct)
    (auto split: if_splits)

lemma parse_type_shorter:
  "parse_type ts = Some (ty, r) \<Longrightarrow> length r < length ts"
  by (auto simp: parse_type_def split: option.splits
      dest!: parse_specifier_shorter parse_pointers_shorter)

lemma take_block_shorter:
  "take_block d ts = Some (b, r) \<Longrightarrow> length r < length ts"
proof (induction ts arbitrary: d b r)
  case Nil
  then show ?case by simp
next
  case (Cons t ts)
  show ?case
  proof (cases "t = Punct (CHR ''}'') \<and> d = 0")
    case True
    with Cons.prems show ?thesis by auto
  next
    case False
    with Cons.prems obtain d' b' where "take_block d' ts = Some (b', r)"
      by (auto split: option.splits if_splits)
    from Cons.IH [OF this] show ?thesis by simp
  qed
qed

lemma parse_function_shorter:
  assumes "parse_function ts = Some (d, r)"
  shows "length r < length ts"
proof -
  from assms obtain ty n c r0 where
    ty: "parse_type ts = Some (ty, Ident n # Punct c # r0)"
    by (auto simp: parse_function_def split: option.splits list.splits token.splits if_splits)
  have r0: "length r0 < length ts"
    using parse_type_shorter [OF ty] by simp
  have dw: "length (dropWhile not_close_paren r0) \<le> length r0"
    by (rule length_dropWhile_le)
  from assms ty obtain close e r' where
    rest: "dropWhile not_close_paren r0 = close # Punct e # r'"
    by (auto simp: parse_function_def split: option.splits list.splits token.splits if_splits)
  have r': "length r' < length ts"
    using r0 dw rest by simp
  from assms ty rest have "r = r' \<or> (\<exists>b. take_block 0 r' = Some (b, r))"
    by (auto simp: parse_function_def split: option.splits if_splits)
  then show ?thesis
    using r' by (auto dest: take_block_shorter)
qed

lemma parse_struct_shorter:
  "parse_struct ts = Some (d, r) \<Longrightarrow> length r \<le> length ts"
  by (auto simp: parse_struct_def
      split: list.splits token.splits if_splits option.splits
      dest!: take_block_shorter)

lemma parse_decl_shorter:
  "parse_decl ts = Some (d, r) \<Longrightarrow> length r < length ts"
proof (induction ts rule: parse_decl.induct)
  case (1 c ts)
  then show ?case by (auto split: if_splits)
next
  case (2 a ts)
  then show ?case
    by (auto split: if_splits option.splits list.splits token.splits
        dest!: parse_type_shorter parse_struct_shorter parse_function_shorter)
qed auto

function parse_unit :: "token list \<Rightarrow> decl list option" where
  "parse_unit [] = Some []"
| "parse_unit (t # ts) =
     (case parse_decl (t # ts) of
        None \<Rightarrow> None
      | Some (d, r) \<Rightarrow>
          (case parse_unit r of None \<Rightarrow> None | Some ds \<Rightarrow> Some (d # ds)))"
  by pat_completeness auto
termination
  by (relation "measure length") (auto dest: parse_decl_shorter)

text \<open>
  A translation unit that consists of the header alone, compiled with the macros \<open>D\<close>
  predefined: the header is included once and the emitted tokens are parsed. There is
  no unit where preprocessing stops with an error, in particular where a macro of \<open>D\<close>
  names a token of the header's declarations.
\<close>

definition translation_unit :: "string set \<Rightarrow> string \<Rightarrow> decl list option" where
  "translation_unit D text =
     (case include_file text \<lparr>defined = D, emitted = []\<rparr> of
        Inl e \<Rightarrow> None
      | Inr s \<Rightarrow> parse_unit (emitted s))"

fun declared_functions :: "decl list \<Rightarrow> (string \<times> ctype \<times> ctype list) list" where
  "declared_functions [] = []"
| "declared_functions (FunProto n ty ps # ds) = (n, ty, ps) # declared_functions ds"
| "declared_functions (FunDef n ty ps body # ds) = (n, ty, ps) # declared_functions ds"
| "declared_functions (d # ds) = declared_functions ds"


fun struct_definitions :: "decl list \<Rightarrow> (string \<times> token list) list" where
  "struct_definitions [] = []"
| "struct_definitions (StructDef tag body # ds) = (tag, body) # struct_definitions ds"
| "struct_definitions (d # ds) = struct_definitions ds"







definition text_tokens :: "string \<Rightarrow> token list" where
  "text_tokens text = concat (map (\<lambda>l. case l of PText ts \<Rightarrow> ts | _ \<Rightarrow> []) (pp_lines_of text))"

subsection \<open>Types of the declared objects\<close>

text \<open>
  A typedef name stands for the type it was declared with. Declarations are looked up
  from the most recent one backwards, so a typedef may use the typedefs before it.
\<close>

fun subst_typedef :: "string \<Rightarrow> ctype \<Rightarrow> ctype \<Rightarrow> ctype" where
  "subst_typedef n def TVoid = TVoid"
| "subst_typedef n def (TNamed m) = (if m = n then def else TNamed m)"
| "subst_typedef n def (TStruct tag) = TStruct tag"
| "subst_typedef n def (TConst ty) = TConst (subst_typedef n def ty)"
| "subst_typedef n def (TPtr ty) = TPtr (subst_typedef n def ty)"

fun resolve_rev :: "decl list \<Rightarrow> ctype \<Rightarrow> ctype" where
  "resolve_rev [] ty = ty"
| "resolve_rev (Typedef def n # ds) ty = resolve_rev ds (subst_typedef n def ty)"
| "resolve_rev (d # ds) ty = resolve_rev ds ty"

definition resolve :: "decl list \<Rightarrow> ctype \<Rightarrow> ctype" where
  "resolve ds ty = resolve_rev (rev ds) ty"

definition arithmetic_types :: "string list" where
  "arithmetic_types =
     [''char'', ''short'', ''int'', ''long'', ''signed'', ''unsigned'', ''float'', ''double'',
      ''_Bool'']"

text \<open>
  A structure type is complete once its member list has been seen; \<^verbatim>\<open>void\<close> is never
  complete. An lvalue is modifiable when its type is complete and not const-qualified
  (C11 6.3.2.1); arrays and structures with const members are outside the model.
\<close>

fun complete_type :: "decl list \<Rightarrow> ctype \<Rightarrow> bool" where
  "complete_type ds TVoid = False"
| "complete_type ds (TNamed n) = (n \<in> set arithmetic_types)"
| "complete_type ds (TStruct tag) = (tag \<in> set (map fst (struct_definitions ds)))"
| "complete_type ds (TConst ty) = complete_type ds ty"
| "complete_type ds (TPtr ty) = True"

fun const_qualified :: "ctype \<Rightarrow> bool" where
  "const_qualified (TConst ty) = True"
| "const_qualified ty = False"

definition modifiable_lvalue :: "decl list \<Rightarrow> ctype \<Rightarrow> bool" where
  "modifiable_lvalue ds ty =
     (complete_type ds (resolve ds ty) \<and> \<not> const_qualified (resolve ds ty))"

fun unqualified :: "ctype \<Rightarrow> ctype" where
  "unqualified (TConst ty) = unqualified ty"
| "unqualified ty = ty"

text \<open>The members a member access \<^verbatim>\<open>h->m\<close> could name: those of a defined structure.\<close>

definition visible_members :: "decl list \<Rightarrow> ctype \<Rightarrow> token list option" where
  "visible_members ds ty =
     (case unqualified (resolve ds ty) of
        TStruct tag \<Rightarrow> map_of (struct_definitions ds) tag
      | _ \<Rightarrow> None)"

text \<open>The type of \<^verbatim>\<open>*f()\<close>: what the result of calling \<open>f\<close> points to.\<close>

definition result_target :: "decl list \<Rightarrow> string \<Rightarrow> ctype option" where
  "result_target ds f =
     (case map_of (declared_functions ds) f of
        None \<Rightarrow> None
      | Some (ty, ps) \<Rightarrow>
          (case unqualified (resolve ds ty) of TPtr target \<Rightarrow> Some target | _ \<Rightarrow> None))"

subsection \<open>What a caller can write\<close>

text \<open>
  The expressions a caller can build from the result of a declared function: the call
  itself \<^verbatim>\<open>f()\<close>, a cast \<^verbatim>\<open>(T) e\<close> between pointer types, an indirection \<^verbatim>\<open>*e\<close> and a
  member access \<^verbatim>\<open>e->m\<close>. An indirection and a member access are lvalues; they
  designate the object the pointer points to, or a part of it, and a pointer cast does
  not change which object that is. A call and a cast are not lvalues.
\<close>

datatype expr = Call string | Cast ctype expr | Deref expr | Arrow expr string

fun uses_cast :: "expr \<Rightarrow> bool" where
  "uses_cast (Call f) = False"
| "uses_cast (Cast ty e) = True"
| "uses_cast (Deref e) = uses_cast e"
| "uses_cast (Arrow e m) = uses_cast e"

fun is_lvalue :: "expr \<Rightarrow> bool" where
  "is_lvalue (Deref e) = True"
| "is_lvalue (Arrow e m) = True"
| "is_lvalue e = False"

text \<open>
  The member list of a defined structure, read as declarations \<^verbatim>\<open>type name;\<close>. A
  member of another form (an array, a bit-field, a nested structure) is not listed.
\<close>

fun member_groups :: "token list \<Rightarrow> token list \<Rightarrow> token list list" where
  "member_groups acc [] = (if acc = [] then [] else [rev acc])"
| "member_groups acc (t # ts) =
     (if t = Punct (CHR '';'') then rev acc # member_groups [] ts
      else member_groups (t # acc) ts)"

definition member_decl :: "token list \<Rightarrow> (string \<times> ctype) option" where
  "member_decl ts =
     (case parse_type ts of
        Some (ty, [Ident n]) \<Rightarrow> if n \<in> set reserved then None else Some (n, ty)
      | _ \<Rightarrow> None)"

definition struct_members :: "decl list \<Rightarrow> string \<Rightarrow> (string \<times> ctype) list option" where
  "struct_members ds tag =
     (case map_of (struct_definitions ds) tag of
        None \<Rightarrow> None
      | Some body \<Rightarrow> Some (List.map_filter member_decl (member_groups [] body)))"

definition pointer_target :: "ctype \<Rightarrow> ctype option" where
  "pointer_target ty = (case unqualified ty of TPtr target \<Rightarrow> Some target | _ \<Rightarrow> None)"

text \<open>
  The type of an expression, \<open>None\<close> where the expression violates a constraint. A
  member of a const-qualified structure is const-qualified; a member of an incomplete
  structure cannot be named.
\<close>

fun type_of_expr :: "decl list \<Rightarrow> expr \<Rightarrow> ctype option" where
  "type_of_expr ds (Call f) =
     (case map_of (declared_functions ds) f of
        Some (ty, []) \<Rightarrow> Some (resolve ds ty)
      | _ \<Rightarrow> None)"
| "type_of_expr ds (Cast ty e) =
     (case type_of_expr ds e of
        None \<Rightarrow> None
      | Some from \<Rightarrow>
          if pointer_target from \<noteq> None \<and> pointer_target (resolve ds ty) \<noteq> None
          then Some (resolve ds ty) else None)"
| "type_of_expr ds (Deref e) =
     (case type_of_expr ds e of None \<Rightarrow> None | Some ty \<Rightarrow> pointer_target ty)"
| "type_of_expr ds (Arrow e m) =
     (case type_of_expr ds e of
        None \<Rightarrow> None
      | Some ty \<Rightarrow>
          (case pointer_target ty of
             None \<Rightarrow> None
           | Some target \<Rightarrow>
               (case unqualified target of
                  TStruct tag \<Rightarrow>
                    (case struct_members ds tag of
                       None \<Rightarrow> None
                     | Some ms \<Rightarrow>
                         (case map_of ms m of
                            None \<Rightarrow> None
                          | Some mty \<Rightarrow>
                              Some (if const_qualified target then TConst (resolve ds mty)
                                    else resolve ds mty)))
                | _ \<Rightarrow> None)))"

text \<open>
  An assignment \<^verbatim>\<open>e = v\<close> is accepted when \<open>e\<close> is a modifiable lvalue. A caller of
  the header compiled with the macros \<open>D\<close> may assign to \<open>e\<close> when the header's
  translation unit accepts that assignment.
\<close>

definition assignable :: "decl list \<Rightarrow> expr \<Rightarrow> bool" where
  "assignable ds e =
     (is_lvalue e \<and>
      (case type_of_expr ds e of None \<Rightarrow> False | Some ty \<Rightarrow> modifiable_lvalue ds ty))"

definition caller_may_assign :: "string set \<Rightarrow> string \<Rightarrow> expr \<Rightarrow> bool" where
  "caller_may_assign D text e =
     (case translation_unit D text of None \<Rightarrow> False | Some ds \<Rightarrow> assignable ds e)"

section \<open>Size of the artifact\<close>

lemma snail_h_lines:
  \<open>split_lines snail_h =
     [''#ifndef TREE_SITTER_SNAIL_H_'',
      ''#define TREE_SITTER_SNAIL_H_'',
      '''',
      ''typedef struct TSLanguage TSLanguage;'',
      '''',
      ''#ifdef __cplusplus'',
      ''extern "C" {'',
      ''#endif'',
      '''',
      ''const TSLanguage *tree_sitter_snail(void);'',
      '''',
      ''#ifdef __cplusplus'',
      ''}'',
      ''#endif'',
      '''',
      ''#endif // TREE_SITTER_SNAIL_H_'']\<close>
  by (simp add: split_lines_def snail_h_def nl_def)

text \<open>
  Claim C9. The artifact is exactly 16 lines long: its 241 bytes hold 15 line feeds,
  and the row after the last line feed is the sixteenth line.
\<close>

theorem snail_h_sixteen_lines:
  "line_count snail_h = 16 \<and> newline_count snail_h = 15 \<and> length snail_h = 241"
  by (simp add: line_count_def newline_count_def snail_h_lines)
    (simp add: snail_h_def nl_def)

section \<open>What the header declares\<close>

lemma snail_h_pp_lines:
  "pp_lines_of snail_h =
     [PIfndef ''TREE_SITTER_SNAIL_H_'',
      PDefine ''TREE_SITTER_SNAIL_H_'' [],
      PText [],
      PText [Ident ''typedef'', Ident ''struct'', Ident ''TSLanguage'', Ident ''TSLanguage'',
             Punct (CHR '';'')],
      PText [],
      PIfdef ''__cplusplus'',
      PText [Ident ''extern'', StrLit ''C'', Punct (CHR ''{'')],
      PEndif,
      PText [],
      PText [Ident ''const'', Ident ''TSLanguage'', Punct (CHR ''*''),
             Ident ''tree_sitter_snail'', Punct (CHR ''(''), Ident ''void'',
             Punct (CHR '')''), Punct (CHR '';'')],
      PText [],
      PIfdef ''__cplusplus'',
      PText [Punct (CHR ''}'')],
      PEndif,
      PText [],
      PEndif]"
  by (simp add: pp_lines_of_def snail_h_lines tokens_of_line_def
      is_space_def is_digit_def is_nondigit_def dquote_def)

lemmas parse_defs =
  parse_function_def parse_struct_def parse_type_def parse_params_def not_close_paren_def
  reserved_def statement_keywords_def

lemma snail_h_unit_c:
  "translation_unit {} snail_h =
     Some [Typedef (TStruct ''TSLanguage'') ''TSLanguage'',
           FunProto ''tree_sitter_snail'' (TPtr (TConst (TNamed ''TSLanguage''))) []]"
  by (simp add: translation_unit_def include_file_def snail_h_pp_lines parse_defs)

lemma snail_h_unit_cxx:
  "translation_unit {''__cplusplus''} snail_h =
     Some [Typedef (TStruct ''TSLanguage'') ''TSLanguage'',
           LinkageOpen ''C'',
           FunProto ''tree_sitter_snail'' (TPtr (TConst (TNamed ''TSLanguage''))) [],
           LinkageClose]"
  by (simp add: translation_unit_def include_file_def snail_h_pp_lines parse_defs)

lemma snail_h_text_decls:
  "parse_unit (text_tokens snail_h) =
     Some [Typedef (TStruct ''TSLanguage'') ''TSLanguage'',
           LinkageOpen ''C'',
           FunProto ''tree_sitter_snail'' (TPtr (TConst (TNamed ''TSLanguage''))) [],
           LinkageClose]"
  by (simp add: text_tokens_def snail_h_pp_lines parse_defs)

text \<open>
  Claim C1. The header declares exactly one function, \<^verbatim>\<open>tree_sitter_snail\<close>, with the
  prototype \<^verbatim>\<open>(void)\<close> of a function without parameters and the result type pointer to
  const \<^verbatim>\<open>TSLanguage\<close>; nothing else of the file is a function or another entry point.
  This holds of the text lines of the file taken together, of the header compiled as C
  and of the header compiled as C++. The parse accepts no object declaration, so its
  success on the whole token sequence leaves no room for a further entry point.
\<close>

theorem tree_sitter_snail_sole_function:
  "map_option declared_functions (parse_unit (text_tokens snail_h)) =
     Some [(''tree_sitter_snail'', TPtr (TConst (TNamed ''TSLanguage'')), [])]
   \<and> map_option declared_functions (translation_unit {} snail_h) =
     Some [(''tree_sitter_snail'', TPtr (TConst (TNamed ''TSLanguage'')), [])]
   \<and> map_option declared_functions (translation_unit {''__cplusplus''} snail_h) =
     Some [(''tree_sitter_snail'', TPtr (TConst (TNamed ''TSLanguage'')), [])]"
  by (simp add: snail_h_text_decls snail_h_unit_c snail_h_unit_cxx)



lemma resolve_rev_const_struct:
  "resolve_rev ds (TConst (TStruct tag)) = TConst (TStruct tag)"
proof (induction ds)
  case Nil
  show ?case by simp
next
  case (Cons d ds)
  then show ?case by (cases d) simp_all
qed

lemma const_struct_not_modifiable:
  "\<not> modifiable_lvalue ds (TConst (TStruct tag))"
  by (simp add: modifiable_lvalue_def resolve_def resolve_rev_const_struct)

text \<open>
  In a unit whose only function returns a pointer to a const-qualified structure that
  the unit leaves without a member list, an expression without a cast has no type, or
  is the call, or is the indirection of the call.
\<close>

lemma cast_free_types:
  assumes fs: "declared_functions ds = [(f, rty, [])]"
    and rty: "resolve ds rty = TPtr (TConst (TStruct tag))"
    and opaque: "struct_definitions ds = []"
  shows "\<not> uses_cast e \<Longrightarrow>
     type_of_expr ds e = None
     \<or> (e = Call f \<and> type_of_expr ds e = Some (TPtr (TConst (TStruct tag))))
     \<or> (e = Deref (Call f) \<and> type_of_expr ds e = Some (TConst (TStruct tag)))"
proof (induction e)
  case (Call g)
  show ?case using fs rty by simp
next
  case (Cast ty e)
  then show ?case by simp
next
  case (Deref e)
  then have "\<not> uses_cast e" by simp
  from Deref.IH [OF this] show ?case
    by (auto simp: pointer_target_def)
next
  case (Arrow e m)
  then have "\<not> uses_cast e" by simp
  from Arrow.IH [OF this] show ?case
    using opaque by (auto simp: pointer_target_def struct_members_def)
qed

lemma cast_free_not_assignable:
  assumes "declared_functions ds = [(f, rty, [])]"
    and "resolve ds rty = TPtr (TConst (TStruct tag))"
    and "struct_definitions ds = []"
    and "\<not> uses_cast e"
  shows "\<not> assignable ds e"
  using cast_free_types [OF assms]
  by (auto simp: assignable_def const_struct_not_modifiable)

lemma snail_h_cast_free_c:
  "\<not> uses_cast e \<Longrightarrow> \<not> caller_may_assign {} snail_h e"
  by (simp add: caller_may_assign_def snail_h_unit_c)
    (rule cast_free_not_assignable
      [where f = "''tree_sitter_snail''" and tag = "''TSLanguage''"
        and rty = "TPtr (TConst (TNamed ''TSLanguage''))"],
      simp_all add: resolve_def)

lemma snail_h_cast_free_cxx:
  "\<not> uses_cast e \<Longrightarrow> \<not> caller_may_assign {''__cplusplus''} snail_h e"
  by (simp add: caller_may_assign_def snail_h_unit_cxx)
    (rule cast_free_not_assignable
      [where f = "''tree_sitter_snail''" and tag = "''TSLanguage''"
        and rty = "TPtr (TConst (TNamed ''TSLanguage''))"],
      simp_all add: resolve_def)

text \<open>
  Claim C3, as stated, fails. The claim says that no caller can mutate the grammar
  through the returned handle. A caller that converts the handle,
  \<^verbatim>\<open>*(char *) tree_sitter_snail()\<close>, has a modifiable lvalue that designates the first
  byte of the grammar object: the const qualifier constrains the declared type of the
  handle, not every caller.
\<close>

theorem grammar_handle_cast_assignable:
  "caller_may_assign {} snail_h
     (Deref (Cast (TPtr (TNamed ''char'')) (Call ''tree_sitter_snail'')))"
  by (simp add: caller_may_assign_def snail_h_unit_c assignable_def resolve_def
      pointer_target_def modifiable_lvalue_def arithmetic_types_def)

text \<open>
  Claim C3, amended. At its declared type the grammar handle is opaque and read-only.
  In the header compiled as C and as C++, \<^verbatim>\<open>tree_sitter_snail\<close> returns a pointer to
  const \<^verbatim>\<open>TSLanguage\<close>; what the result points to is the const-qualified structure
  \<^verbatim>\<open>TSLanguage\<close>, which the header leaves without a member list, so that the type
  is incomplete and no member of it can be named; and no expression that a caller builds
  from the call without a cast is one the caller can assign to.
\<close>

theorem grammar_handle_opaque_readonly:
  "(\<exists>ds. translation_unit {} snail_h = Some ds
        \<and> map_of (declared_functions ds) ''tree_sitter_snail'' =
            Some (TPtr (TConst (TNamed ''TSLanguage'')), [])
        \<and> result_target ds ''tree_sitter_snail'' = Some (TConst (TStruct ''TSLanguage''))
        \<and> struct_definitions ds = []
        \<and> \<not> complete_type ds (TConst (TStruct ''TSLanguage''))
        \<and> visible_members ds (TConst (TStruct ''TSLanguage'')) = None)
   \<and> (\<exists>ds. translation_unit {''__cplusplus''} snail_h = Some ds
        \<and> map_of (declared_functions ds) ''tree_sitter_snail'' =
            Some (TPtr (TConst (TNamed ''TSLanguage'')), [])
        \<and> result_target ds ''tree_sitter_snail'' = Some (TConst (TStruct ''TSLanguage''))
        \<and> struct_definitions ds = []
        \<and> \<not> complete_type ds (TConst (TStruct ''TSLanguage''))
        \<and> visible_members ds (TConst (TStruct ''TSLanguage'')) = None)
   \<and> (\<not> uses_cast e \<longrightarrow>
        \<not> caller_may_assign {} snail_h e
        \<and> \<not> caller_may_assign {''__cplusplus''} snail_h e)"
  by (simp add: snail_h_unit_c snail_h_unit_cxx result_target_def resolve_def
      visible_members_def snail_h_cast_free_c snail_h_cast_free_cxx)

theorem grammar_handle_opaque_readonly_witness:
  "\<not> uses_cast (Deref (Call ''tree_sitter_snail''))
   \<and> \<not> caller_may_assign {} snail_h (Deref (Call ''tree_sitter_snail''))
   \<and> \<not> caller_may_assign {''__cplusplus''} snail_h (Deref (Call ''tree_sitter_snail''))"
  using grammar_handle_opaque_readonly [of "Deref (Call ''tree_sitter_snail'')"]
  by simp

section \<open>The include guard\<close>

lemma snail_h_text_tokens:
  "text_tokens snail_h =
     [Ident ''typedef'', Ident ''struct'', Ident ''TSLanguage'', Ident ''TSLanguage'',
      Punct (CHR '';''),
      Ident ''extern'', StrLit ''C'', Punct (CHR ''{''),
      Ident ''const'', Ident ''TSLanguage'', Punct (CHR ''*''),
      Ident ''tree_sitter_snail'', Punct (CHR ''(''), Ident ''void'',
      Punct (CHR '')''), Punct (CHR '';''),
      Punct (CHR ''}'')]"
  by (simp add: text_tokens_def snail_h_pp_lines)

lemma include_again:
  "''TREE_SITTER_SNAIL_H_'' \<in> defined s \<Longrightarrow> include_file snail_h s = Inr s"
  by (simp add: include_file_def snail_h_pp_lines)

lemma include_first:
  assumes guard: "''TREE_SITTER_SNAIL_H_'' \<notin> defined s"
    and plain: "filter (names_macro (defined s)) (text_tokens snail_h) = []"
  shows "\<exists>s'. include_file snail_h s = Inr s'
          \<and> defined s' = insert ''TREE_SITTER_SNAIL_H_'' (defined s)
          \<and> count_list (emitted s') (Ident ''tree_sitter_snail'') =
              count_list (emitted s) (Ident ''tree_sitter_snail'') + 1"
proof -
  from plain have idents:
    "''typedef'' \<notin> defined s" "''struct'' \<notin> defined s" "''TSLanguage'' \<notin> defined s"
    "''extern'' \<notin> defined s" "''const'' \<notin> defined s"
    "''tree_sitter_snail'' \<notin> defined s" "''void'' \<notin> defined s"
    by (simp_all add: snail_h_text_tokens split: if_splits)
  show ?thesis
  proof (cases "''__cplusplus'' \<in> defined s")
    case True
    with guard idents show ?thesis
      by (simp add: include_file_def snail_h_pp_lines)
  next
    case False
    with guard idents show ?thesis
      by (simp add: include_file_def snail_h_pp_lines)
  qed
qed

lemma include_times_fixed:
  "include_file text s = Inr s \<Longrightarrow> include_times n text s = Inr s"
  by (induction n) simp_all

text \<open>
  Claim C10. Including the header any number of times in one translation unit is
  idempotent. Take a preprocessor state \<open>s\<close> in which the guard macro is defined (the
  header is skipped) or in which no identifier of the header's text lines is a macro
  (its text needs no macro replacement). One inclusion succeeds with a state \<open>s'\<close> in
  which the guard macro is defined; every further inclusion leaves \<open>s'\<close> as it is, so
  \<open>n + 1\<close> inclusions give the result of one; and the declaration of
  \<^verbatim>\<open>tree_sitter_snail\<close> has been emitted once if the guard was not defined in \<open>s\<close>,
  and not at all if it was.
\<close>

theorem include_guard_idempotent:
  assumes "''TREE_SITTER_SNAIL_H_'' \<in> defined s
           \<or> filter (names_macro (defined s)) (text_tokens snail_h) = []"
  shows "\<exists>s'. include_file snail_h s = Inr s'
      \<and> include_times (Suc n) snail_h s = Inr s'
      \<and> include_file snail_h s' = Inr s'
      \<and> ''TREE_SITTER_SNAIL_H_'' \<in> defined s'
      \<and> count_list (emitted s') (Ident ''tree_sitter_snail'') =
          count_list (emitted s) (Ident ''tree_sitter_snail'') +
          (if ''TREE_SITTER_SNAIL_H_'' \<in> defined s then 0 else 1)"
proof (cases "''TREE_SITTER_SNAIL_H_'' \<in> defined s")
  case True
  then have once: "include_file snail_h s = Inr s"
    by (rule include_again)
  then have "include_times (Suc n) snail_h s = Inr s"
    by (simp add: include_times_fixed)
  with once True show ?thesis by simp
next
  case False
  with assms have "filter (names_macro (defined s)) (text_tokens snail_h) = []"
    by simp
  from include_first [OF False this] obtain s' where
    once: "include_file snail_h s = Inr s'"
    and guard: "defined s' = insert ''TREE_SITTER_SNAIL_H_'' (defined s)"
    and one: "count_list (emitted s') (Ident ''tree_sitter_snail'') =
              count_list (emitted s) (Ident ''tree_sitter_snail'') + 1"
    by blast
  from guard have again: "include_file snail_h s' = Inr s'"
    by (simp add: include_again)
  then have "include_times n snail_h s' = Inr s'"
    by (rule include_times_fixed)
  with once have many: "include_times (Suc n) snail_h s = Inr s'" by simp
  from once many again guard one False show ?thesis by simp
qed

theorem include_guard_idempotent_witness:
  "filter (names_macro {}) (text_tokens snail_h) = []
   \<and> (\<exists>s'. include_file snail_h \<lparr>defined = {}, emitted = []\<rparr> = Inr s'
        \<and> include_times (Suc 2) snail_h \<lparr>defined = {}, emitted = []\<rparr> = Inr s'
        \<and> include_file snail_h s' = Inr s'
        \<and> ''TREE_SITTER_SNAIL_H_'' \<in> defined s'
        \<and> count_list (emitted s') (Ident ''tree_sitter_snail'') = 1)
   \<and> (\<exists>s'. include_file snail_h
              \<lparr>defined = {''TREE_SITTER_SNAIL_H_'', ''tree_sitter_snail''}, emitted = []\<rparr> = Inr s'
        \<and> include_times (Suc 2) snail_h
              \<lparr>defined = {''TREE_SITTER_SNAIL_H_'', ''tree_sitter_snail''}, emitted = []\<rparr> = Inr s'
        \<and> count_list (emitted s') (Ident ''tree_sitter_snail'') = 0)"
proof -
  have plain: "filter (names_macro {}) (text_tokens snail_h) = []"
    by (simp add: snail_h_text_tokens)
  have first:
    "''TREE_SITTER_SNAIL_H_'' \<in> defined \<lparr>defined = {}, emitted = []\<rparr>
     \<or> filter (names_macro (defined \<lparr>defined = {}, emitted = []\<rparr>)) (text_tokens snail_h) = []"
    using plain by simp
  have skipped:
    "''TREE_SITTER_SNAIL_H_''
       \<in> defined \<lparr>defined = {''TREE_SITTER_SNAIL_H_'', ''tree_sitter_snail''}, emitted = []\<rparr>
     \<or> filter (names_macro
          (defined \<lparr>defined = {''TREE_SITTER_SNAIL_H_'', ''tree_sitter_snail''}, emitted = []\<rparr>))
          (text_tokens snail_h) = []"
    by simp
  from include_guard_idempotent [OF first, of 2] have once:
    "\<exists>s'. include_file snail_h \<lparr>defined = {}, emitted = []\<rparr> = Inr s'
        \<and> include_times (Suc 2) snail_h \<lparr>defined = {}, emitted = []\<rparr> = Inr s'
        \<and> include_file snail_h s' = Inr s'
        \<and> ''TREE_SITTER_SNAIL_H_'' \<in> defined s'
        \<and> count_list (emitted s') (Ident ''tree_sitter_snail'') = 1"
    by simp
  from include_guard_idempotent [OF skipped, of 2] have none:
    "\<exists>s'. include_file snail_h
              \<lparr>defined = {''TREE_SITTER_SNAIL_H_'', ''tree_sitter_snail''}, emitted = []\<rparr> = Inr s'
        \<and> include_times (Suc 2) snail_h
              \<lparr>defined = {''TREE_SITTER_SNAIL_H_'', ''tree_sitter_snail''}, emitted = []\<rparr> = Inr s'
        \<and> count_list (emitted s') (Ident ''tree_sitter_snail'') = 0"
    by auto
  from plain once none show ?thesis by (intro conjI)
qed

end
